theory Spec2Isabelle
  imports Main
begin

section \<open>JavaScript values\<close>

text \<open>
  The values a validator receives and returns. Input is typically JSON-decoded data:
  \<open>undefined\<close>, \<open>null\<close>, booleans, numbers, strings, dense arrays and plain objects. A plain
  object \<open>Obj ps\<close> is the list of its own enumerable string-keyed properties in the order
  \<open>Object.keys\<close> reports them, and its prototype is \<open>Object.prototype\<close>, as for an object
  literal or an object from \<open>JSON.parse\<close>. Reading a member that a value inherits gives a
  value that is not JSON data: a built-in function \<open>Function n\<close>, or an intrinsic prototype
  object \<open>Intrinsic n\<close>, each named by the expression that denotes it. \<open>ObjectWith p ps\<close> is
  an ordinary object with the own properties \<open>ps\<close> whose prototype is \<open>p\<close>, which is \<open>null\<close>
  or an object: what an assignment to \<open>__proto__\<close> makes of a plain object.

  The intrinsic objects are those of ECMAScript 2023 in a realm that has not modified them.
  No modelled operation computes with the payload of a number, which is kept as an integer.
  Strings are lists of ASCII characters.
\<close>

datatype jsval =
    Undefined
  | Null
  | Bool bool
  | Num int
  | Str string
  | Arr "jsval list"
  | Obj "(string \<times> jsval) list"
  | Function string
  | Intrinsic string
  | ObjectWith jsval "(string \<times> jsval) list"

text \<open>The \<open>typeof\<close> operator.\<close>

fun typeof :: "jsval \<Rightarrow> string" where
  "typeof Undefined = ''undefined''"
| "typeof Null = ''object''"
| "typeof (Bool b) = ''boolean''"
| "typeof (Num n) = ''number''"
| "typeof (Str s) = ''string''"
| "typeof (Arr xs) = ''object''"
| "typeof (Obj ps) = ''object''"
| "typeof (Function n) = ''function''"
| "typeof (Intrinsic n) = ''object''"
| "typeof (ObjectWith p ps) = ''object''"

text \<open>\<open>Array.isArray\<close>. The intrinsic \<open>Array.prototype\<close> is itself an array, of length 0.\<close>

fun isArray :: "jsval \<Rightarrow> bool" where
  "isArray (Arr xs) = True"
| "isArray (Intrinsic n) = (n = ''Array.prototype'')"
| "isArray v = False"

text \<open>The elements of an array.\<close>

fun elements :: "jsval \<Rightarrow> jsval list" where
  "elements (Arr xs) = xs"
| "elements v = []"

subsection \<open>Decimal numerals and array indices\<close>

definition digit_char :: "nat \<Rightarrow> char" where
  "digit_char d = ''0123456789'' ! d"

text \<open>The decimal rendering of a non-negative integer, as a template literal prints an index.\<close>

fun show_nat :: "nat \<Rightarrow> string" where
  "show_nat n = (if n < 10 then [digit_char n] else show_nat (n div 10) @ [digit_char (n mod 10)])"

declare show_nat.simps [simp del]

definition is_digit :: "char \<Rightarrow> bool" where
  "is_digit c = (48 \<le> (of_char c :: nat) \<and> (of_char c :: nat) \<le> 57)"

definition is_upper :: "char \<Rightarrow> bool" where
  "is_upper c = (65 \<le> (of_char c :: nat) \<and> (of_char c :: nat) \<le> 90)"

definition to_lower :: "char \<Rightarrow> char" where
  "to_lower c =
     (case map_of (zip ''ABCDEFGHIJKLMNOPQRSTUVWXYZ'' ''abcdefghijklmnopqrstuvwxyz'') c of
        Some l \<Rightarrow> l
      | None \<Rightarrow> c)"

definition toLowerCase :: "string \<Rightarrow> string" where
  "toLowerCase s = map to_lower s"

fun digits_value :: "nat \<Rightarrow> string \<Rightarrow> nat" where
  "digits_value acc [] = acc"
| "digits_value acc (c # cs) = digits_value (10 * acc + ((of_char c :: nat) - 48)) cs"

text \<open>
  A property key is an array index when it is the canonical decimal numeral of an integer
  below \<open>2^32 - 1\<close>: no sign, no leading zero.
\<close>

definition array_index :: "string \<Rightarrow> nat option" where
  "array_index k =
     (if k = [] \<or> \<not> list_all is_digit k then None
      else if hd k = CHR ''0'' \<and> tl k \<noteq> [] then None
      else if digits_value 0 k < 4294967295 then Some (digits_value 0 k)
      else None)"

section \<open>Errors\<close>

text \<open>
  What a validator can throw: a \<open>ValidationError\<close> with its assertion message, a
  \<open>ValidationError.Named\<close> with a name and an assertion message, or any other error, which
  is kept with its message.
\<close>

datatype error =
    ValidationError string
  | Named string string
  | Defect string

text \<open>\<open>e instanceof ValidationError\<close>: true of the class and of its subclass \<open>Named\<close>.\<close>

fun instanceof_ValidationError :: "error \<Rightarrow> bool" where
  "instanceof_ValidationError (ValidationError m) = True"
| "instanceof_ValidationError (Named n m) = True"
| "instanceof_ValidationError (Defect d) = False"

text \<open>The field \<open>assertionMessage\<close>; a defect has none.\<close>

fun assertionMessage :: "error \<Rightarrow> string" where
  "assertionMessage (ValidationError m) = m"
| "assertionMessage (Named n m) = m"
| "assertionMessage (Defect d) = []"

text \<open>The field \<open>message\<close> set by the constructors.\<close>

fun message :: "error \<Rightarrow> string" where
  "message (ValidationError m) = ''Expected '' @ m @ ''.''"
| "message (Named n m) = n @ '' expected '' @ m @ ''.''"
| "message (Defect d) = d"

section \<open>Property reads and writes\<close>

subsection \<open>Inherited members\<close>

text \<open>
  The function members of \<open>Object.prototype\<close> and of \<open>Array.prototype\<close>. Besides them,
  \<open>Object.prototype\<close> has the member \<open>constructor\<close> and the accessor \<open>__proto__\<close>, and
  \<open>Array.prototype\<close> has \<open>constructor\<close> and \<open>length\<close>.
\<close>

definition Object_prototype_functions :: "string list" where
  "Object_prototype_functions =
     [''__defineGetter__'', ''__defineSetter__'', ''hasOwnProperty'', ''__lookupGetter__'',
      ''__lookupSetter__'', ''isPrototypeOf'', ''propertyIsEnumerable'', ''toString'',
      ''valueOf'', ''toLocaleString'']"

definition Array_prototype_functions :: "string list" where
  "Array_prototype_functions =
     [''at'', ''concat'', ''copyWithin'', ''fill'', ''find'', ''findIndex'', ''findLast'',
      ''findLastIndex'', ''lastIndexOf'', ''pop'', ''push'', ''reverse'', ''shift'',
      ''unshift'', ''slice'', ''sort'', ''splice'', ''includes'', ''indexOf'', ''join'',
      ''keys'', ''entries'', ''values'', ''forEach'', ''filter'', ''flat'', ''flatMap'',
      ''map'', ''every'', ''some'', ''reduce'', ''reduceRight'', ''toLocaleString'',
      ''toString'', ''toReversed'', ''toSorted'', ''toSpliced'', ''with'']"

text \<open>
  What the search for a key along a prototype chain finds: a data property with its value,
  the accessor \<open>__proto__\<close> of \<open>Object.prototype\<close>, or nothing.
\<close>

datatype member = Data jsval | ProtoAccessor | Absent

definition Object_prototype_member :: "string \<Rightarrow> member" where
  "Object_prototype_member k =
     (if k = ''__proto__'' then ProtoAccessor
      else if k = ''constructor'' then Data (Function ''Object'')
      else if k \<in> set Object_prototype_functions then Data (Function (''Object.prototype.'' @ k))
      else Absent)"

definition Array_prototype_member :: "string \<Rightarrow> member" where
  "Array_prototype_member k =
     (if k = ''length'' then Data (Num 0)
      else if k = ''constructor'' then Data (Function ''Array'')
      else if k \<in> set Array_prototype_functions then Data (Function (''Array.prototype.'' @ k))
      else Object_prototype_member k)"

text \<open>
  The search for a key, from a value up its prototype chain. \<open>pluck\<close> takes an object
  (\<open>Field.AnyObject\<close>), and \<open>validate\<close> passes it values whose \<open>typeof\<close> is \<open>object\<close>. For a
  primitive and for a function the search is also defined, with the members of
  \<open>Object.prototype\<close>, which they all inherit; the own members of a function and of the
  prototype objects of strings, numbers, booleans and functions are left out.
\<close>

fun find_property :: "jsval \<Rightarrow> string \<Rightarrow> member" where
  "find_property Undefined k = Absent"
| "find_property Null k = Absent"
| "find_property (Bool b) k = Object_prototype_member k"
| "find_property (Num n) k = Object_prototype_member k"
| "find_property (Str s) k =
     (if k = ''length'' then Data (Num (int (length s)))
      else case array_index k of
        Some i \<Rightarrow> (if i < length s then Data (Str [s ! i]) else Object_prototype_member k)
      | None \<Rightarrow> Object_prototype_member k)"
| "find_property (Arr xs) k =
     (if k = ''length'' then Data (Num (int (length xs)))
      else case array_index k of
        Some i \<Rightarrow> (if i < length xs then Data (xs ! i) else Array_prototype_member k)
      | None \<Rightarrow> Array_prototype_member k)"
| "find_property (Obj ps) k =
     (case map_of ps k of Some v \<Rightarrow> Data v | None \<Rightarrow> Object_prototype_member k)"
| "find_property (Function n) k = Object_prototype_member k"
| "find_property (Intrinsic n) k =
     (if n = ''Array.prototype'' then Array_prototype_member k else Object_prototype_member k)"
| "find_property (ObjectWith p ps) k =
     (case map_of ps k of Some v \<Rightarrow> Data v | None \<Rightarrow> find_property p k)"

text \<open>The prototype of a value, which is what the getter of \<open>__proto__\<close> returns.\<close>

fun prototype_of :: "jsval \<Rightarrow> jsval" where
  "prototype_of Undefined = Null"
| "prototype_of Null = Null"
| "prototype_of (Bool b) = Intrinsic ''Boolean.prototype''"
| "prototype_of (Num n) = Intrinsic ''Number.prototype''"
| "prototype_of (Str s) = Intrinsic ''String.prototype''"
| "prototype_of (Arr xs) = Intrinsic ''Array.prototype''"
| "prototype_of (Obj ps) = Intrinsic ''Object.prototype''"
| "prototype_of (Function n) =
     (if n = ''Function.prototype'' then Intrinsic ''Object.prototype''
      else Function ''Function.prototype'')"
| "prototype_of (Intrinsic n) =
     (if n = ''Object.prototype'' then Null else Intrinsic ''Object.prototype'')"
| "prototype_of (ObjectWith p ps) = p"

subsection \<open>Reading\<close>

text \<open>
  \<open>data[key]\<close>. Reading a property of \<open>undefined\<close> or \<open>null\<close> throws a \<open>TypeError\<close>, which
  is not a \<open>ValidationError\<close>. On another value the read gives the own property, or else the
  member found up the prototype chain, and \<open>undefined\<close> when there is neither.
\<close>

fun get_property :: "jsval \<Rightarrow> string \<Rightarrow> error + jsval" where
  "get_property Undefined k = Inl (Defect ''TypeError'')"
| "get_property Null k = Inl (Defect ''TypeError'')"
| "get_property data k =
     (case find_property data k of
        Data v \<Rightarrow> Inr v
      | ProtoAccessor \<Rightarrow> Inr (prototype_of data)
      | Absent \<Rightarrow> Inr Undefined)"

subsection \<open>Writing\<close>

text \<open>
  An own data property of a property list gets a value. An existing key keeps its place.
  A new array-index key goes among the index keys in ascending order, which come first;
  any other new key goes last.
\<close>

fun replace_property :: "string \<Rightarrow> 'a \<Rightarrow> (string \<times> 'a) list \<Rightarrow> (string \<times> 'a) list" where
  "replace_property k v [] = []"
| "replace_property k v ((k', v') # ps) =
     (if k = k' then (k, v) # ps else (k', v') # replace_property k v ps)"

fun insert_index :: "nat \<Rightarrow> string \<Rightarrow> 'a \<Rightarrow> (string \<times> 'a) list \<Rightarrow> (string \<times> 'a) list" where
  "insert_index i k v [] = [(k, v)]"
| "insert_index i k v ((k', v') # ps) =
     (case array_index k' of
        Some j \<Rightarrow> (if j < i then (k', v') # insert_index i k v ps else (k, v) # (k', v') # ps)
      | None \<Rightarrow> (k, v) # (k', v') # ps)"

definition define_own_property :: "string \<Rightarrow> 'a \<Rightarrow> (string \<times> 'a) list \<Rightarrow> (string \<times> 'a) list" where
  "define_own_property k v ps =
     (if k \<in> set (map fst ps) then replace_property k v ps
      else case array_index k of
        Some i \<Rightarrow> insert_index i k v ps
      | None \<Rightarrow> ps @ [(k, v)])"

text \<open>An ordinary object with a prototype and own properties.\<close>

definition with_prototype :: "jsval \<Rightarrow> (string \<times> jsval) list \<Rightarrow> jsval" where
  "with_prototype p ps = (if p = Intrinsic ''Object.prototype'' then Obj ps else ObjectWith p ps)"

text \<open>
  \<open>obj[key] = value\<close> on an ordinary object with the prototype \<open>p\<close> and the own properties
  \<open>ps\<close>. An own property gets the value. Otherwise the key is searched up the prototype
  chain. When the search ends at the accessor \<open>__proto__\<close> of \<open>Object.prototype\<close>, its setter
  runs: no own property is created, and the prototype of the object becomes the value when
  that is an object, a function or \<open>null\<close>. In every other case the object gets a new own
  property: the members the search finds are writable data properties. The read-only
  members \<open>name\<close> and \<open>length\<close> of a function, under which an assignment to an object that
  inherits from the function throws, are among the own members of functions that are left
  out.
\<close>

definition ordinary_set :: "jsval \<Rightarrow> (string \<times> jsval) list \<Rightarrow> string \<Rightarrow> jsval \<Rightarrow> jsval" where
  "ordinary_set p ps key value =
     (if key \<in> set (map fst ps) then with_prototype p (define_own_property key value ps)
      else case find_property p key of
        ProtoAccessor \<Rightarrow>
          (if typeof value = ''object'' \<or> typeof value = ''function''
           then with_prototype value ps else with_prototype p ps)
      | Data v \<Rightarrow> with_prototype p (define_own_property key value ps)
      | Absent \<Rightarrow> with_prototype p (define_own_property key value ps))"

text \<open>The program assigns only to objects it has created with \<open>{}\<close>.\<close>

fun set_property :: "jsval \<Rightarrow> string \<Rightarrow> jsval \<Rightarrow> jsval" where
  "set_property (Obj ps) key value = ordinary_set (Intrinsic ''Object.prototype'') ps key value"
| "set_property (ObjectWith p ps) key value = ordinary_set p ps key value"
| "set_property obj key value = obj"


text \<open>The own enumerable properties \<open>Object.assign\<close> copies from a source value.\<close>

fun index_from :: "nat \<Rightarrow> 'a list \<Rightarrow> (string \<times> 'a) list" where
  "index_from i [] = []"
| "index_from i (x # xs) = (show_nat i, x) # index_from (Suc i) xs"

fun own_properties :: "jsval \<Rightarrow> (string \<times> jsval) list" where
  "own_properties (Obj ps) = ps"
| "own_properties (ObjectWith p ps) = ps"
| "own_properties (Arr xs) = index_from 0 xs"
| "own_properties (Str s) = index_from 0 (map (\<lambda>c. Str [c]) s)"
| "own_properties v = []"

text \<open>\<open>Object.assign(target, ...sources)\<close> on values: each source in turn has its own
  enumerable properties assigned to the target.\<close>

definition Object_assign :: "jsval \<Rightarrow> jsval list \<Rightarrow> jsval" where
  "Object_assign target sources =
     fold (\<lambda>src t. fold (\<lambda>(k, v) t'. set_property t' k v) (own_properties src) t) sources target"

section \<open>Validators\<close>

text \<open>
  A validator is a function from a raw value that returns a value or throws. It may be any
  closure, so it runs in a state \<open>'s\<close> that it may change: this is what makes it observable
  whether, and in which order, a combinator invokes the validators it wraps. A validator is
  assumed to return or throw.
\<close>

type_synonym 's Validator = "jsval \<Rightarrow> 's \<Rightarrow> (error + jsval) \<times> 's"

definition wrapError :: "'s Validator \<Rightarrow> string \<Rightarrow> 's Validator" where
  "wrapError validator err value s =
     (case validator value s of
        (Inr r, s') \<Rightarrow> (Inr r, s')
      | (Inl e, s') \<Rightarrow>
          (if instanceof_ValidationError e
           then (Inl (ValidationError (err @ '' '' @ assertionMessage e)), s')
           else (Inl e, s')))"

definition optional :: "'s Validator \<Rightarrow> 's Validator" where
  "optional validator value s =
     (if value = Undefined then (Inr value, s) else wrapError validator ''undefined or'' value s)"

definition nullable :: "'s Validator \<Rightarrow> 's Validator" where
  "nullable validator value s =
     (if value = Null then (Inr value, s) else wrapError validator ''null or'' value s)"

definition blankable :: "'s Validator \<Rightarrow> 's Validator" where
  "blankable validate value s =
     (if value = Null \<or> value = Undefined then (Inr Undefined, s)
      else wrapError validate ''null, undefined, or'' value s)"

text \<open>
  \<open>values.map((value, index) => ...)\<close>: the callback runs on the elements in index order, and
  an exception it throws ends the traversal.
\<close>

fun map_index :: "(jsval \<Rightarrow> nat \<Rightarrow> 's \<Rightarrow> (error + jsval) \<times> 's) \<Rightarrow> nat \<Rightarrow> jsval list \<Rightarrow> 's
    \<Rightarrow> (error + jsval list) \<times> 's" where
  "map_index f i [] s = (Inr [], s)"
| "map_index f i (x # xs) s =
     (case f x i s of
        (Inl e, s') \<Rightarrow> (Inl e, s')
      | (Inr y, s') \<Rightarrow>
          (case map_index f (Suc i) xs s' of
             (Inl e, s'') \<Rightarrow> (Inl e, s'')
           | (Inr ys, s'') \<Rightarrow> (Inr (y # ys), s'')))"

definition arrayOf :: "'s Validator \<Rightarrow> 's Validator" where
  "arrayOf validator values s =
     (if isArray values then
        (case map_index
                (\<lambda>value index.
                   wrapError validator (''an array with value at ['' @ show_nat index @ ''], that is'')
                     value)
                0 (elements values) s of
           (Inl e, s') \<Rightarrow> (Inl e, s')
         | (Inr ys, s') \<Rightarrow> (Inr (Arr ys), s'))
      else (Inl (ValidationError ''an array''), s))"

text \<open>\<open>validationMessageOf\<close> returns a message, or rethrows what is not a validation error.\<close>

fun validationMessageOf :: "error \<Rightarrow> error + string" where
  "validationMessageOf (Named n m) = Inr (n @ '', that is '' @ m)"
| "validationMessageOf (ValidationError m) = Inr m"
| "validationMessageOf (Defect d) = Inl (Defect d)"

definition union :: "'s Validator \<Rightarrow> 's Validator \<Rightarrow> 's Validator" where
  "union a b data s =
     (case a data s of
        (Inr r, s1) \<Rightarrow> (Inr r, s1)
      | (Inl ea, s1) \<Rightarrow>
          (case validationMessageOf ea of
             Inl d \<Rightarrow> (Inl d, s1)
           | Inr messageA \<Rightarrow>
               (case b data s1 of
                  (Inr r, s2) \<Rightarrow> (Inr r, s2)
                | (Inl eb, s2) \<Rightarrow>
                    (case validationMessageOf eb of
                       Inl d \<Rightarrow> (Inl d, s2)
                     | Inr messageB \<Rightarrow>
                         (Inl (ValidationError (messageA @ ''; or '' @ messageB)), s2)))))"

text \<open>
  \<open>Object.assign({}, a(data), b(data))\<close>: the arguments are evaluated from left to right
  before the call, so an exception of \<open>a(data)\<close> leaves \<open>b(data)\<close> unevaluated.
\<close>

definition intersect :: "'s Validator \<Rightarrow> 's Validator \<Rightarrow> 's Validator" where
  "intersect a b data s =
     (case a data s of
        (Inl e, s1) \<Rightarrow> (Inl e, s1)
      | (Inr ra, s1) \<Rightarrow>
          (case b data s1 of
             (Inl e, s2) \<Rightarrow> (Inl e, s2)
           | (Inr rb, s2) \<Rightarrow>
               (Inr (Object_assign (Obj []) [ra, rb]), s2)))"

subsection \<open>Leaf validators\<close>

definition string :: "'s Validator" where
  "string value s =
     (if typeof value \<noteq> ''string'' then (Inl (ValidationError ''a string''), s) else (Inr value, s))"

definition number :: "'s Validator" where
  "number value s =
     (if typeof value \<noteq> ''number'' then (Inl (ValidationError ''a number''), s) else (Inr value, s))"

definition boolean :: "'s Validator" where
  "boolean value s =
     (if typeof value \<noteq> ''boolean'' then (Inl (ValidationError ''a boolean''), s) else (Inr value, s))"

section \<open>Fields\<close>

text \<open>\<open>snake\<close>: the first character lowered, then every capital and every run of digits of
  the rest prefixed with an underscore and lowered. The flag records that the previous
  character belongs to the run of digits being matched.\<close>

fun replace_matches :: "bool \<Rightarrow> string \<Rightarrow> string" where
  "replace_matches in_run [] = []"
| "replace_matches in_run (c # cs) =
     (if is_upper c then CHR ''_'' # to_lower c # replace_matches False cs
      else if is_digit c then
        (if in_run then c # replace_matches True cs
         else CHR ''_'' # c # replace_matches True cs)
      else c # replace_matches False cs)"

definition snake :: "string \<Rightarrow> string" where
  "snake key =
     (let first = take 1 key; rest = drop 1 key
      in toLowerCase first @ replace_matches False rest)"

datatype 's Field =
    MapField "'s Validator" "string \<Rightarrow> string"
  | MultiField "'s Validator"

text \<open>The template literal \<open>`an object with attribute '${sourceKey}', that is`\<close>.\<close>

definition attribute_prefix :: "string \<Rightarrow> string" where
  "attribute_prefix sourceKey =
     ''an object with attribute '' @ [CHR 0x27] @ sourceKey @ [CHR 0x27] @ '', that is''"

fun pluck :: "'s Field \<Rightarrow> string \<Rightarrow> jsval \<Rightarrow> 's \<Rightarrow> (error + jsval) \<times> 's" where
  "pluck (MapField validator toSourceKey) key data s =
     (let sourceKey = toSourceKey key in
      case get_property data sourceKey of
        Inl e \<Rightarrow> (Inl e, s)
      | Inr value \<Rightarrow> wrapError validator (attribute_prefix sourceKey) value s)"
| "pluck (MultiField validator) key data s = validator data s"

definition field :: "'s Validator \<Rightarrow> 's Field" where
  "field validator = MapField validator (\<lambda>key. key)"

definition fieldWithKey :: "string \<Rightarrow> 's Validator \<Rightarrow> 's Field" where
  "fieldWithKey key validator = MapField validator (\<lambda>_. key)"

definition fieldFromSnake :: "'s Validator \<Rightarrow> 's Field" where
  "fieldFromSnake validator = MapField validator snake"

definition multiField :: "'s Validator \<Rightarrow> 's Field" where
  "multiField validator = MultiField validator"

section \<open>Models\<close>

text \<open>
  A definition is an object whose values are fields. \<open>Model.extend\<close> builds a new definition
  object with \<open>Object.assign\<close>, which writes into its first argument, so definition objects
  live in a store and a model holds the address of its definition. The store is a list and
  an address is a position in it.
\<close>

type_synonym 's Definition = "(string \<times> 's Field) list"

type_synonym 's store = "'s Definition list"

record Model =
  name :: "string option"
  definition_ref :: nat

definition model :: "string option \<Rightarrow> nat \<Rightarrow> Model" where
  "model nm d = \<lparr>name = nm, definition_ref = d\<rparr>"







text \<open>The loop of \<open>validate\<close> over the keys of the definition, in the order of
  \<open>Object.keys\<close>, each key with the field the definition holds for it. The result object is
  threaded through.\<close>

fun pluck_fields :: "'s Definition \<Rightarrow> jsval \<Rightarrow> jsval \<Rightarrow> 's \<Rightarrow> (error + jsval) \<times> 's" where
  "pluck_fields [] data result s = (Inr result, s)"
| "pluck_fields ((key, fld) # rest) data result s =
     (case pluck fld key data s of
        (Inl e, s') \<Rightarrow> (Inl e, s')
      | (Inr value, s') \<Rightarrow>
          pluck_fields rest data
            (if value \<noteq> Undefined then set_property result key value else result) s')"

text \<open>The body of the \<open>try\<close> block of \<open>validate\<close>.\<close>

definition validate_body :: "'s store \<Rightarrow> Model \<Rightarrow> 's Validator" where
  "validate_body h this data s =
     (if typeof data \<noteq> ''object'' then (Inl (ValidationError ''an object''), s)
      else pluck_fields (h ! definition_ref this) data (Obj []) s)"

text \<open>\<open>validate\<close>, with its \<open>catch\<close> clause. Calling a model as a function is calling
  \<open>validate\<close>.\<close>

definition validate :: "'s store \<Rightarrow> Model \<Rightarrow> 's Validator" where
  "validate h this data s =
     (case validate_body h this data s of
        (Inr r, s') \<Rightarrow> (Inr r, s')
      | (Inl e, s') \<Rightarrow>
          (case name this of
             Some n \<Rightarrow>
               (if instanceof_ValidationError e then (Inl (Named n (assertionMessage e)), s')
                else (Inl e, s'))
           | None \<Rightarrow> (Inl e, s')))"

section \<open>Fixtures\<close>

text \<open>A validator that accepts every value and counts its invocations in the state.\<close>

definition count_calls :: "nat Validator" where
  "count_calls value s = (Inr value, Suc s)"

text \<open>A validator that accepts every value and returns it: \<open>v => v\<close>.\<close>

definition anything :: "'s Validator" where
  "anything value s = (Inr value, s)"

text \<open>A validator with a defect: it throws an error that is not a \<open>ValidationError\<close>.\<close>

definition throw_error :: "'s Validator" where
  "throw_error value s = (Inl (Defect ''Test error''), s)"

text \<open>The store of the two models \<open>model('ModelA', {a: field(string)})\<close> and
  \<open>model('ModelB', {b: field(number)})\<close> of the test suite, and of a third,
  \<open>model('ModelC', {a: fieldWithKey('b', number), c: field(optional(string))})\<close>, and of
  the model of the test suite whose only field throws an error that is not a validation
  error.\<close>

definition store_AB :: "nat store" where
  "store_AB =
     [[(''a'', field string)],
      [(''b'', field number)],
      [(''a'', fieldWithKey ''b'' number), (''c'', field (optional string))],
      [(''a'', field throw_error)]]"

definition ModelA :: Model where
  "ModelA = model (Some ''ModelA'') 0"

definition ModelB :: Model where
  "ModelB = model (Some ''ModelB'') 1"

definition ModelC :: Model where
  "ModelC = model (Some ''ModelC'') 2"

definition badModel :: Model where
  "badModel = model (Some ''Bad'') 3"

text \<open>A validator that counts its invocations in the state and then runs another one.\<close>

definition counted :: "nat Validator \<Rightarrow> nat Validator" where
  "counted v x s = v x (Suc s)"

section \<open>Evaluation\<close>

lemmas eval_defs =
  validate_def validate_body_def wrapError_def string_def number_def boolean_def
  blankable_def optional_def nullable_def field_def fieldWithKey_def fieldFromSnake_def
  multiField_def snake_def toLowerCase_def to_lower_def is_upper_def is_digit_def
  define_own_property_def array_index_def union_def intersect_def arrayOf_def
  Object_assign_def ordinary_set_def with_prototype_def Object_prototype_member_def
  Array_prototype_member_def Object_prototype_functions_def Array_prototype_functions_def
  model_def count_calls_def throw_error_def anything_def store_AB_def
  ModelA_def ModelB_def ModelC_def badModel_def digit_char_def attribute_prefix_def counted_def

section \<open>Error propagation in \<open>wrapError\<close> and \<open>union\<close>\<close>

lemma wrapError_Inr:
  "validator value s = (Inr r, s') \<Longrightarrow> wrapError validator err value s = (Inr r, s')"
  by (simp add: wrapError_def)

lemma wrapError_validation:
  "validator value s = (Inl e, s') \<Longrightarrow> instanceof_ValidationError e \<Longrightarrow>
   wrapError validator err value s = (Inl (ValidationError (err @ '' '' @ assertionMessage e)), s')"
  by (simp add: wrapError_def)

lemma wrapError_defect:
  "validator value s = (Inl e, s') \<Longrightarrow> \<not> instanceof_ValidationError e \<Longrightarrow>
   wrapError validator err value s = (Inl e, s')"
  by (simp add: wrapError_def)

lemma validationMessageOf_Inr_iff:
  "(\<exists>m. validationMessageOf e = Inr m) \<longleftrightarrow> instanceof_ValidationError e"
  by (cases e) simp_all

lemma validationMessageOf_defect:
  "\<not> instanceof_ValidationError e \<Longrightarrow> validationMessageOf e = Inl e"
  by (cases e) auto

lemma union_a_defect:
  "a data s = (Inl ea, s1) \<Longrightarrow> \<not> instanceof_ValidationError ea \<Longrightarrow>
   union a b data s = (Inl ea, s1)"
  by (simp add: union_def validationMessageOf_defect)

lemma union_b_defect:
  "a data s = (Inl ea, s1) \<Longrightarrow> instanceof_ValidationError ea \<Longrightarrow>
   b data s1 = (Inl eb, s2) \<Longrightarrow> \<not> instanceof_ValidationError eb \<Longrightarrow>
   union a b data s = (Inl eb, s2)"
  by (cases ea) (simp_all add: union_def validationMessageOf_defect)

lemma union_both_fail:
  "a data s = (Inl ea, s1) \<Longrightarrow> validationMessageOf ea = Inr messageA \<Longrightarrow>
   b data s1 = (Inl eb, s2) \<Longrightarrow> validationMessageOf eb = Inr messageB \<Longrightarrow>
   union a b data s = (Inl (ValidationError (messageA @ ''; or '' @ messageB)), s2)"
  by (simp add: union_def)

lemma union_validation_inv:
  assumes "union a b data s = (Inl e, s')" and "instanceof_ValidationError e"
  shows "\<exists>ea s1 eb. a data s = (Inl ea, s1) \<and> instanceof_ValidationError ea
             \<and> b data s1 = (Inl eb, s') \<and> instanceof_ValidationError eb"
proof -
  obtain ra s1 where a: "a data s = (ra, s1)" by (cases "a data s")
  show ?thesis
  proof (cases ra)
    case (Inr r)
    with a assms show ?thesis by (simp add: union_def)
  next
    case (Inl ea)
    show ?thesis
    proof (cases "instanceof_ValidationError ea")
      case False
      with a Inl assms show ?thesis by (simp add: union_a_defect)
    next
      case True
      then obtain ma where ma: "validationMessageOf ea = Inr ma"
        using validationMessageOf_Inr_iff by blast
      obtain rb s2 where b: "b data s1 = (rb, s2)" by (cases "b data s1")
      show ?thesis
      proof (cases rb)
        case (Inr r)
        with a Inl ma b assms show ?thesis by (simp add: union_def)
      next
        case eb: (Inl eb)
        show ?thesis
        proof (cases "instanceof_ValidationError eb")
          case False
          with a Inl True b eb assms show ?thesis by (simp add: union_b_defect)
        next
          case vb: True
          then obtain mb where mb: "validationMessageOf eb = Inr mb"
            using validationMessageOf_Inr_iff by blast
          from a Inl ma b eb mb assms have "s' = s2" by (simp add: union_def)
          with a Inl True b eb vb show ?thesis by simp
        qed
      qed
    qed
  qed
qed

text \<open>
  Claim C4. If \<open>a\<close> throws an error that is not a validation error, \<open>union a b\<close> throws it
  at once, in the state \<open>a\<close> left, without running \<open>b\<close>. If \<open>a\<close> fails with a validation
  error and \<open>b\<close> throws another kind of error, that error of \<open>b\<close> propagates. When both
  fail with validation errors, \<open>union a b\<close> fails with the assertion
  \<open>messageA; or messageB\<close>, and it fails with a validation error in no other case. The
  part of a named error in the message is \<open>name, that is assertion\<close>; that of a plain
  validation error is its assertion.
\<close>

theorem union_error_propagation:
  "(a data s = (Inl ea, sa) \<and> \<not> instanceof_ValidationError ea
      \<longrightarrow> union a b data s = (Inl ea, sa))
   \<and> (a data s = (Inl ea, sa) \<and> instanceof_ValidationError ea
        \<and> b data sa = (Inl eb, sb) \<and> \<not> instanceof_ValidationError eb
      \<longrightarrow> union a b data s = (Inl eb, sb))
   \<and> (a data s = (Inl ea, sa) \<and> validationMessageOf ea = Inr messageA
        \<and> b data sa = (Inl eb, sb) \<and> validationMessageOf eb = Inr messageB
      \<longrightarrow> union a b data s = (Inl (ValidationError (messageA @ ''; or '' @ messageB)), sb))
   \<and> (union a b data s = (Inl e, s') \<and> instanceof_ValidationError e
      \<longrightarrow> (\<exists>ea sa eb. a data s = (Inl ea, sa) \<and> instanceof_ValidationError ea
             \<and> b data sa = (Inl eb, s') \<and> instanceof_ValidationError eb))
   \<and> validationMessageOf (Named n m) = Inr (n @ '', that is '' @ m)
   \<and> validationMessageOf (ValidationError m) = Inr m"
  using union_a_defect [of a data s ea sa b]
    union_b_defect [of a data s ea sa b eb sb]
    union_both_fail [of a data s ea sa messageA b eb sb messageB]
    union_validation_inv [of a b data s e s']
  by simp

theorem union_error_propagation_witness:
  "union throw_error count_calls (Num 1) 0 = (Inl (Defect ''Test error''), 0)
   \<and> union string throw_error (Num 1) (0::nat) = (Inl (Defect ''Test error''), 0)
   \<and> union (validate store_AB ModelA) (validate store_AB ModelB)
        (Obj [(''a'', Num 1234), (''b'', Str ''asdf'')]) 0 =
      (Inl (ValidationError ''ModelA, that is an object with attribute 'a', that is a string; or ModelB, that is an object with attribute 'b', that is a number''), 0)
   \<and> (\<exists>ea sa eb. string (Bool True) (0::nat) = (Inl ea, sa) \<and> instanceof_ValidationError ea
         \<and> number (Bool True) sa = (Inl eb, 0) \<and> instanceof_ValidationError eb)"
  using union_error_propagation [where a = throw_error and data = "Num 1" and s = "0::nat"
      and ea = "Defect ''Test error''" and sa = 0 and b = count_calls]
    union_error_propagation [where a = string and data = "Num 1" and s = "0::nat"
      and ea = "ValidationError ''a string''" and sa = 0 and b = throw_error
      and eb = "Defect ''Test error''" and sb = 0]
    union_error_propagation [where a = "validate store_AB ModelA"
      and data = "Obj [(''a'', Num 1234), (''b'', Str ''asdf'')]" and s = 0
      and ea = "Named ''ModelA'' ''an object with attribute 'a', that is a string''" and sa = 0
      and messageA = "''ModelA, that is an object with attribute 'a', that is a string''"
      and b = "validate store_AB ModelB"
      and eb = "Named ''ModelB'' ''an object with attribute 'b', that is a number''" and sb = 0
      and messageB = "''ModelB, that is an object with attribute 'b', that is a number''"]
    union_error_propagation [where a = string and b = number and data = "Bool True" and s = "0::nat"
      and e = "ValidationError ''a string; or a number''" and s' = 0]
  by (simp add: eval_defs)

text \<open>
  Claim C8. \<open>union a b\<close> is left-biased: on every input on which \<open>a\<close> succeeds, the
  result and the final state of \<open>union a b\<close> are those of \<open>a\<close>, whatever \<open>b\<close> is, so \<open>b\<close>
  is not run and plays no part; in particular this holds when \<open>b\<close> would accept the same
  object.
\<close>

theorem union_left_biased:
  "a data s = (Inr r, sa) \<Longrightarrow>
   union a b data s = (Inr r, sa) \<and> union a b data s = union a b' data s"
  by (simp add: union_def)

theorem union_left_biased_witness:
  "validate store_AB ModelA (Obj [(''a'', Str ''asdf''), (''b'', Num 1234)]) 0 =
     (Inr (Obj [(''a'', Str ''asdf'')]), 0)
   \<and> validate store_AB ModelB (Obj [(''a'', Str ''asdf''), (''b'', Num 1234)]) 0 =
     (Inr (Obj [(''b'', Num 1234)]), 0)
   \<and> union (validate store_AB ModelA) (validate store_AB ModelB)
        (Obj [(''a'', Str ''asdf''), (''b'', Num 1234)]) 0 =
     (Inr (Obj [(''a'', Str ''asdf'')]), 0)
   \<and> union (validate store_AB ModelA) (validate store_AB ModelB)
        (Obj [(''a'', Str ''asdf''), (''b'', Num 1234)]) 0 =
     union (validate store_AB ModelA) count_calls
        (Obj [(''a'', Str ''asdf''), (''b'', Num 1234)]) 0"
proof -
  have a: "validate store_AB ModelA (Obj [(''a'', Str ''asdf''), (''b'', Num 1234)]) 0 =
     (Inr (Obj [(''a'', Str ''asdf'')]), 0)"
    by (simp add: eval_defs)
  have b: "validate store_AB ModelB (Obj [(''a'', Str ''asdf''), (''b'', Num 1234)]) 0 =
     (Inr (Obj [(''b'', Num 1234)]), 0)"
    by (simp add: eval_defs)
  show ?thesis
    using a b
      union_left_biased [where a = "validate store_AB ModelA" and b = "validate store_AB ModelB"
        and b' = count_calls, OF a]
    by auto
qed

section \<open>Names of inner models in composed messages\<close>

text \<open>
  Claim C10. If a validator throws a named validation error with name \<open>n\<close> and assertion
  \<open>m\<close>, then \<open>wrapError v p\<close> throws the plain validation error with assertion \<open>p m\<close>: the
  name is dropped. So it is in a field's pluck under the key prefix, and in \<open>optional\<close>,
  \<open>nullable\<close>, \<open>blankable\<close> and \<open>arrayOf\<close>, which all compose their message with
  \<open>wrapError\<close>. The message \<open>union\<close> composes keeps the name, as \<open>n, that is m\<close>, on either
  side.
\<close>

theorem wrapError_discards_name:
  "v x s = (Inl (Named n m), s') \<Longrightarrow>
   wrapError v p x s = (Inl (ValidationError (p @ '' '' @ m)), s')
   \<and> (get_property data (toSourceKey key) = Inr x \<longrightarrow>
        pluck (MapField v toSourceKey) key data s =
          (Inl (ValidationError (attribute_prefix (toSourceKey key) @ '' '' @ m)), s'))
   \<and> (x \<noteq> Undefined \<longrightarrow>
        optional v x s = (Inl (ValidationError (''undefined or '' @ m)), s'))
   \<and> (x \<noteq> Null \<longrightarrow>
        nullable v x s = (Inl (ValidationError (''null or '' @ m)), s'))
   \<and> (x \<noteq> Null \<and> x \<noteq> Undefined \<longrightarrow>
        blankable v x s = (Inl (ValidationError (''null, undefined, or '' @ m)), s'))
   \<and> arrayOf v (Arr [x]) s =
        (Inl (ValidationError (''an array with value at [0], that is '' @ m)), s')
   \<and> (b x s' = (Inl eb, s'') \<and> validationMessageOf eb = Inr messageB \<longrightarrow>
        union v b x s =
          (Inl (ValidationError ((n @ '', that is '' @ m) @ ''; or '' @ messageB)), s''))
   \<and> (a x s0 = (Inl ea, s) \<and> validationMessageOf ea = Inr messageA \<longrightarrow>
        union a v x s0 =
          (Inl (ValidationError (messageA @ ''; or '' @ (n @ '', that is '' @ m))), s'))"
  by (simp add: wrapError_def optional_def nullable_def blankable_def arrayOf_def union_def
      show_nat.simps digit_char_def)


theorem wrapError_discards_name_witness:
  "validate store_AB ModelA (Obj [(''a'', Num 1234)]) 0 =
     (Inl (Named ''ModelA'' ''an object with attribute 'a', that is a string''), 0)
   \<and> wrapError (validate store_AB ModelA) ''prefix'' (Obj [(''a'', Num 1234)]) 0 =
     (Inl (ValidationError ''prefix an object with attribute 'a', that is a string''), 0)
   \<and> pluck (field (validate store_AB ModelA)) ''child''
        (Obj [(''child'', Obj [(''a'', Num 1234)])]) 0 =
     (Inl (ValidationError
        ''an object with attribute 'child', that is an object with attribute 'a', that is a string''), 0)
   \<and> union (validate store_AB ModelA) number (Obj [(''a'', Num 1234)]) 0 =
     (Inl (ValidationError
        ''ModelA, that is an object with attribute 'a', that is a string; or a number''), 0)"
proof -
  have a: "validate store_AB ModelA (Obj [(''a'', Num 1234)]) 0 =
     (Inl (Named ''ModelA'' ''an object with attribute 'a', that is a string''), 0)"
    by (simp add: eval_defs)
  show ?thesis
    using a
      wrapError_discards_name [where v = "validate store_AB ModelA"
        and x = "Obj [(''a'', Num 1234)]" and s = 0 and s' = 0 and n = "''ModelA''"
        and m = "''an object with attribute 'a', that is a string''" and p = "''prefix''"
        and data = "Obj [(''child'', Obj [(''a'', Num 1234)])]" and toSourceKey = "\<lambda>k. k"
        and key = "''child''" and b = number and eb = "ValidationError ''a number''"
        and s'' = 0 and messageB = "''a number''", OF a]
    by (simp add: field_def number_def attribute_prefix_def)
qed

section \<open>Arrays\<close>

lemma map_index_append:
  "map_index f i (xs @ ys) s =
     (case map_index f i xs s of
        (Inl e, s') \<Rightarrow> (Inl e, s')
      | (Inr rs, s') \<Rightarrow>
          (case map_index f (i + length xs) ys s' of
             (Inl e, s'') \<Rightarrow> (Inl e, s'')
           | (Inr rs', s'') \<Rightarrow> (Inr (rs @ rs'), s'')))"
  by (induction xs arbitrary: i s) (auto split: prod.splits sum.splits)

lemma map_index_length:
  "map_index f i xs s = (Inr ys, s') \<Longrightarrow> length ys = length xs"
  by (induction xs arbitrary: i s ys) (auto split: prod.splits sum.splits)

lemma arrayOf_Arr_Inr:
  "arrayOf v (Arr xs) s = (Inr r, s') \<longleftrightarrow>
   (\<exists>ys. r = Arr ys \<and>
      map_index (\<lambda>x i. wrapError v (''an array with value at ['' @ show_nat i @ ''], that is'') x)
        0 xs s = (Inr ys, s'))"
  by (auto simp: arrayOf_def split: prod.splits sum.splits)

lemma arrayOf_not_array:
  "\<not> isArray raw \<Longrightarrow> arrayOf v raw s = (Inl (ValidationError ''an array''), s)"
  by (simp add: arrayOf_def)

lemma arrayOf_snoc:
  assumes "arrayOf v (Arr pre) s = (Inr (Arr ys), sa)" and "v x sa = (Inr y, sb)"
  shows "arrayOf v (Arr (pre @ [x])) s = (Inr (Arr (ys @ [y])), sb)"
proof -
  from assms(1) have "map_index (\<lambda>x i. wrapError v (''an array with value at ['' @ show_nat i @ ''], that is'') x)
        0 pre s = (Inr ys, sa)"
    by (simp add: arrayOf_Arr_Inr)
  with assms(2) show ?thesis
    by (simp add: arrayOf_def map_index_append wrapError_def)
qed

lemma arrayOf_first_invalid:
  assumes "arrayOf v (Arr pre) s = (Inr (Arr ys), sa)" and "v x sa = (Inl e, sb)"
    and "instanceof_ValidationError e"
  shows "arrayOf v (Arr (pre @ x # post)) s =
     (Inl (ValidationError (''an array with value at ['' @ show_nat (length pre) @ ''], that is ''
        @ assertionMessage e)), sb)"
proof -
  from assms(1) have "map_index (\<lambda>x i. wrapError v (''an array with value at ['' @ show_nat i @ ''], that is'') x)
        0 pre s = (Inr ys, sa)"
    by (simp add: arrayOf_Arr_Inr)
  with assms(2,3) show ?thesis
    by (simp add: arrayOf_def map_index_append wrapError_def)
qed

text \<open>
  Claim C5. \<open>arrayOf v\<close> fails with the assertion \<open>an array\<close> on every input that is not
  an array and returns \<open>[]\<close> on the empty array. It validates the elements in index order,
  each in the state its predecessor left: when the elements before position \<open>i\<close> pass and
  the element at \<open>i\<close> passes, the results so far are extended by its result; when the
  element at \<open>i\<close> is the first to fail validation, the whole fails with the assertion
  \<open>an array with value at [i], that is inner\<close> in the state that element left, whatever
  follows it, so later elements are not visited and there is no partial result. A result
  is an array as long as the input.
\<close>

theorem arrayOf_first_failure:
  "(\<not> isArray raw \<longrightarrow> arrayOf v raw s = (Inl (ValidationError ''an array''), s))
   \<and> arrayOf v (Arr []) s = (Inr (Arr []), s)
   \<and> (arrayOf v (Arr pre) s = (Inr (Arr ys), sa) \<and> v x sa = (Inr y, sb) \<longrightarrow>
        arrayOf v (Arr (pre @ [x])) s = (Inr (Arr (ys @ [y])), sb))
   \<and> (arrayOf v (Arr pre) s = (Inr (Arr ys), sa) \<and> v x sa = (Inl e, sb)
        \<and> instanceof_ValidationError e \<longrightarrow>
        arrayOf v (Arr (pre @ x # post)) s =
          (Inl (ValidationError (''an array with value at ['' @ show_nat (length pre)
             @ ''], that is '' @ assertionMessage e)), sb))
   \<and> (arrayOf v (Arr xs) s = (Inr r, s') \<longrightarrow> (\<exists>zs. r = Arr zs \<and> length zs = length xs))"
proof (intro conjI impI)
  show "arrayOf v (Arr []) s = (Inr (Arr []), s)"
    by (simp add: arrayOf_def)
next
  assume "arrayOf v (Arr xs) s = (Inr r, s')"
  then show "\<exists>zs. r = Arr zs \<and> length zs = length xs"
    using map_index_length by (fastforce simp: arrayOf_Arr_Inr)
qed (simp_all add: arrayOf_not_array arrayOf_snoc arrayOf_first_invalid)

theorem arrayOf_first_failure_witness:
  "arrayOf (counted string) (Obj []) 0 = (Inl (ValidationError ''an array''), 0)
   \<and> arrayOf (counted string) (Arr [Str ''a'']) 0 = (Inr (Arr [Str ''a'']), 1)
   \<and> arrayOf (counted string) (Arr [Str ''a'', Str ''b'']) 0 = (Inr (Arr [Str ''a'', Str ''b'']), 2)
   \<and> arrayOf (counted string) (Arr [Str ''a'', Str ''b'', Num 1, Str ''c'', Num 2]) 0 =
       (Inl (ValidationError ''an array with value at [2], that is a string''), 3)"
proof -
  have p1: "arrayOf (counted string) (Arr [Str ''a'']) 0 = (Inr (Arr [Str ''a'']), 1)"
    by (simp add: eval_defs counted_def show_nat.simps)
  have e2: "counted string (Str ''b'') 1 = (Inr (Str ''b''), 2)"
    by (simp add: eval_defs counted_def)
  have p2: "arrayOf (counted string) (Arr ([Str ''a''] @ [Str ''b''])) 0 = (Inr (Arr ([Str ''a''] @ [Str ''b''])), 2)"
    using arrayOf_first_failure [where v = "counted string" and pre = "[Str ''a'']" and s = 0
        and ys = "[Str ''a'']" and sa = 1 and x = "Str ''b''" and y = "Str ''b''" and sb = 2] p1 e2
    by simp
  have e3: "counted string (Num 1) 2 = (Inl (ValidationError ''a string''), 3)"
    by (simp add: eval_defs counted_def)
  have l: "show_nat (length [Str ''a'', Str ''b'']) = ''2''"
    by (simp add: show_nat.simps digit_char_def)
  show ?thesis
    using p1 p2 e3 l
      arrayOf_first_failure [where v = "counted string" and raw = "Obj []" and s = 0]
      arrayOf_first_failure [where v = "counted string" and pre = "[Str ''a'', Str ''b'']" and s = 0
        and ys = "[Str ''a'', Str ''b'']" and sa = 2 and x = "Num 1" and sb = 3
        and e = "ValidationError ''a string''" and post = "[Str ''c'', Num 2]"]
    by simp
qed

section \<open>Property lists\<close>









subsection \<open>Assignment to an object\<close>
















section \<open>Plucking\<close>


lemma get_property_own:
  "map_of ps k = Some x \<Longrightarrow> get_property (Obj ps) k = Inr x"
  by simp






section \<open>Model validation\<close>

lemma pluck_fields_append:
  "pluck_fields (pre @ rest) data r s =
     (case pluck_fields pre data r s of
        (Inl e, s') \<Rightarrow> (Inl e, s')
      | (Inr r', s') \<Rightarrow> pluck_fields rest data r' s')"
  by (induction pre arbitrary: r s) (auto split: prod.splits sum.splits)

lemma typeof_not_object:
  "typeof raw \<noteq> ''object'' \<longleftrightarrow>
   raw = Undefined \<or> (\<exists>b. raw = Bool b) \<or> (\<exists>n. raw = Num n) \<or> (\<exists>t. raw = Str t)
     \<or> (\<exists>f. raw = Function f)"
  by (cases raw) simp_all

lemma validate_body_not_object:
  "typeof raw \<noteq> ''object'' \<Longrightarrow>
   validate_body h m raw s = (Inl (ValidationError ''an object''), s)"
  by (simp add: validate_body_def)

lemma validate_body_pluck_fails:
  assumes "typeof data = ''object''" and "h ! definition_ref m = pre @ (key, fld) # post"
    and "pluck_fields pre data (Obj []) s = (Inr r, sa)" and "pluck fld key data sa = (Inl e, sb)"
  shows "validate_body h m data s = (Inl e, sb)"
  using assms by (simp add: validate_body_def pluck_fields_append)

text \<open>
  Claim C1, as the code has it. The check is \<open>typeof data !== 'object'\<close>. On every value
  whose \<open>typeof\<close> is not \<open>object\<close>, which are \<open>undefined\<close>, the booleans, the numbers, the
  strings and the functions, a model fails at once, in the state it was called in, with the assertion
  \<open>an object\<close>: a plain validation error when the model has no name, a named one when it
  has. An array has the \<open>typeof\<close> \<open>object\<close>: the model goes on to pluck its fields from
  it.
\<close>

theorem validate_rejects_non_object_typeof:
  "(typeof raw \<noteq> ''object'' \<longrightarrow>
      validate h m raw s =
        (Inl (case name m of None \<Rightarrow> ValidationError ''an object''
                           | Some n \<Rightarrow> Named n ''an object''), s)
      \<and> assertionMessage (case name m of None \<Rightarrow> ValidationError ''an object''
                           | Some n \<Rightarrow> Named n ''an object'') = ''an object'')
   \<and> (typeof raw \<noteq> ''object'' \<longleftrightarrow>
        raw = Undefined \<or> (\<exists>b. raw = Bool b) \<or> (\<exists>n. raw = Num n) \<or> (\<exists>t. raw = Str t)
     \<or> (\<exists>f. raw = Function f))
   \<and> validate h (model None d) (Arr xs) s =
        (case pluck_fields (h ! d) (Arr xs) (Obj []) s of
           (Inl e, s') \<Rightarrow> (Inl e, s')
         | (Inr result, s') \<Rightarrow> (Inr result, s'))
   \<and> validate_body h m (Arr xs) s = pluck_fields (h ! definition_ref m) (Arr xs) (Obj []) s"
proof (intro conjI impI)
  assume "typeof raw \<noteq> ''object''"
  then show "validate h m raw s =
        (Inl (case name m of None \<Rightarrow> ValidationError ''an object''
                           | Some n \<Rightarrow> Named n ''an object''), s)"
    by (simp add: validate_def validate_body_not_object split: option.splits)
next
  show "assertionMessage (case name m of None \<Rightarrow> ValidationError ''an object''
                           | Some n \<Rightarrow> Named n ''an object'') = ''an object''"
    by (simp split: option.splits)
next
  show "typeof raw \<noteq> ''object'' \<longleftrightarrow>
        raw = Undefined \<or> (\<exists>b. raw = Bool b) \<or> (\<exists>n. raw = Num n) \<or> (\<exists>t. raw = Str t)
     \<or> (\<exists>f. raw = Function f)"
    by (rule typeof_not_object)
next
  show "validate h (model None d) (Arr xs) s =
        (case pluck_fields (h ! d) (Arr xs) (Obj []) s of
           (Inl e, s') \<Rightarrow> (Inl e, s')
         | (Inr result, s') \<Rightarrow> (Inr result, s'))"
    by (simp add: validate_def validate_body_def model_def split: prod.splits sum.splits)
next
  show "validate_body h m (Arr xs) s = pluck_fields (h ! definition_ref m) (Arr xs) (Obj []) s"
    by (simp add: validate_body_def)
qed

theorem validate_rejects_non_object_typeof_witness:
  "validate store_AB ModelA (Str '''') 0 = (Inl (Named ''ModelA'' ''an object''), 0)
   \<and> validate store_AB (model None 0) Undefined 0 = (Inl (ValidationError ''an object''), 0)
   \<and> message (Named ''ModelA'' ''an object'') = ''ModelA expected an object.''
   \<and> validate store_AB (model None 2) (Arr [Num 5]) 0 =
       (Inl (ValidationError ''an object with attribute 'b', that is a number''), 0)"
  using validate_rejects_non_object_typeof [where raw = "Str ''''" and h = store_AB and m = ModelA
      and s = 0]
    validate_rejects_non_object_typeof [where raw = Undefined and h = store_AB
      and m = "model None 0" and s = 0 and d = 2 and xs = "[Num 5]"]
  by (simp add: eval_defs)

text \<open>
  Claim C1 as stated fails on arrays: the model \<open>model(null, {length: field(number)})\<close>
  accepts the array \<open>['x']\<close> and returns \<open>{length: 1}\<close>.
\<close>

theorem validate_accepts_array_counterexample:
  "validate [[(''length'', field number)]] (model None 0) (Arr [Str ''x'']) (0::nat) =
     (Inr (Obj [(''length'', Num 1)]), 0)"
  by (simp add: eval_defs)

text \<open>
  Claim C3. An error thrown in the body of \<open>validate\<close> that is a validation error is
  rethrown by a model with a name as the named error with that name and the same
  assertion, which renders as \<open>name expected assertion.\<close>; a model without a name rethrows
  it unchanged; an error that is not a validation error is rethrown unchanged by both. The
  body throws at the \<open>typeof\<close> check, and at the first field whose pluck throws, with the
  error of that pluck.
\<close>

theorem validate_rewraps_validation_errors:
  "(validate_body h m data s = (Inl e, s') \<and> instanceof_ValidationError e \<and> name m = Some n
      \<longrightarrow> validate h m data s = (Inl (Named n (assertionMessage e)), s')
        \<and> message (Named n (assertionMessage e)) = n @ '' expected '' @ assertionMessage e @ ''.'')
   \<and> (validate_body h m data s = (Inl e, s') \<and> name m = None
      \<longrightarrow> validate h m data s = (Inl e, s'))
   \<and> (validate_body h m data s = (Inl e, s') \<and> \<not> instanceof_ValidationError e
      \<longrightarrow> validate h m data s = (Inl e, s'))
   \<and> (typeof data \<noteq> ''object''
      \<longrightarrow> validate_body h m data s = (Inl (ValidationError ''an object''), s))
   \<and> (typeof data = ''object'' \<and> h ! definition_ref m = pre @ (key, fld) # post
        \<and> pluck_fields pre data (Obj []) s = (Inr r, sa) \<and> pluck fld key data sa = (Inl e, sb)
      \<longrightarrow> validate_body h m data s = (Inl e, sb))"
  using validate_body_pluck_fails [of data h m pre key fld post s r sa e sb]
  by (simp add: validate_def validate_body_not_object split: option.splits)

theorem validate_rewraps_validation_errors_witness:
  "validate store_AB ModelA (Str '''') 0 = (Inl (Named ''ModelA'' ''an object''), 0)
   \<and> validate store_AB ModelC (Obj [(''b'', Num 1), (''c'', Num 2)]) 0 =
       (Inl (Named ''ModelC'' ''an object with attribute 'c', that is undefined or a string''), 0)
   \<and> message (Named ''ModelC'' ''an object with attribute 'c', that is undefined or a string'') =
       ''ModelC expected an object with attribute 'c', that is undefined or a string.''
   \<and> validate store_AB (model None 2) (Obj [(''b'', Num 1), (''c'', Num 2)]) 0 =
       (Inl (ValidationError ''an object with attribute 'c', that is undefined or a string''), 0)
   \<and> validate store_AB badModel (Obj []) 0 = (Inl (Defect ''Test error''), 0)
   \<and> validate store_AB (model None 3) (Obj []) 0 = (Inl (Defect ''Test error''), 0)"
proof -
  let ?data = "Obj [(''b'', Num 1), (''c'', Num 2)]"
  let ?e = "ValidationError ''an object with attribute 'c', that is undefined or a string''"
  have t: "typeof ?data = ''object''"
    by simp
  have d: "store_AB ! definition_ref ModelC =
      [(''a'', fieldWithKey ''b'' number)] @ (''c'', field (optional string)) # []"
    by (simp add: store_AB_def ModelC_def model_def)
  have pre: "pluck_fields [(''a'', fieldWithKey ''b'' number)] ?data (Obj []) 0 =
      (Inr (Obj [(''a'', Num 1)]), 0)"
    by (simp add: eval_defs)
  have pl: "pluck (field (optional string)) ''c'' ?data (0::nat) = (Inl ?e, 0)"
    by (simp add: eval_defs)
  have bodyC: "validate_body store_AB ModelC ?data 0 = (Inl ?e, 0)"
    using validate_rewraps_validation_errors [where h = store_AB and m = ModelC and data = ?data
        and pre = "[(''a'', fieldWithKey ''b'' number)]" and key = "''c''"
        and fld = "field (optional string)" and post = "[]" and s = 0 and r = "Obj [(''a'', Num 1)]"
        and sa = 0 and e = ?e and sb = 0] t d pre pl
    by blast
  have bodyN: "validate_body store_AB (model None 2) ?data 0 = (Inl ?e, 0)"
    using bodyC by (simp add: validate_body_def ModelC_def model_def)
  have bodyB: "validate_body store_AB badModel (Obj []) 0 = (Inl (Defect ''Test error''), 0)"
    by (simp add: eval_defs)
  have bodyB': "validate_body store_AB (model None 3) (Obj []) 0 = (Inl (Defect ''Test error''), 0)"
    by (simp add: eval_defs)
  have bodyA: "validate_body store_AB ModelA (Str '''') 0 = (Inl (ValidationError ''an object''), 0)"
    using validate_rewraps_validation_errors [where h = store_AB and m = ModelA
        and data = "Str ''''" and s = 0]
    by simp
  show ?thesis
    using validate_rewraps_validation_errors [where h = store_AB and m = ModelA
        and data = "Str ''''" and s = 0 and e = "ValidationError ''an object''" and s' = 0
        and n = "''ModelA''"] bodyA
      validate_rewraps_validation_errors [where h = store_AB and m = ModelC and data = ?data
        and s = 0 and e = ?e and s' = 0 and n = "''ModelC''"] bodyC
      validate_rewraps_validation_errors [where h = store_AB and m = "model None 2" and data = ?data
        and s = 0 and e = ?e and s' = 0] bodyN
      validate_rewraps_validation_errors [where h = store_AB and m = badModel and data = "Obj []"
        and s = 0 and e = "Defect ''Test error''" and s' = 0] bodyB
      validate_rewraps_validation_errors [where h = store_AB and m = "model None 3" and data = "Obj []"
        and s = 0 and e = "Defect ''Test error''" and s' = 0] bodyB'
    by (simp add: ModelA_def ModelC_def badModel_def model_def)
qed

section \<open>The keys of a result\<close>











section \<open>Intersection\<close>












section \<open>Extension\<close>













end
